theory Spec2Isabelle
  imports Complex_Main "HOL-Library.Sublist"
begin

section \<open>Python values and strings\<close>

text \<open>
  The validators of \<^verbatim>\<open>main.py\<close> receive dictionaries from field names to raw values.
  The callers put strings (form entries, CSV cells read with \<^verbatim>\<open>dtype=str\<close>) and integers
  (identities taken from the tree views, the parsed quantity) into them; \<^verbatim>\<open>row.get\<close> adds
  \<^verbatim>\<open>None\<close> for a missing key. A string is a list of characters, each a code point below
  256. The \<^verbatim>\<open>REAL\<close> columns and Python's floats are idealised as \<open>real\<close>: rounding,
  infinities and NaN are outside the model.
\<close>

datatype pyval = PNone | PStr string | PInt int

type_synonym row = "string \<rightharpoonup> pyval"

text \<open>\<^verbatim>\<open>row.get(field)\<close>: the value, or \<^verbatim>\<open>None\<close> when the key is missing.\<close>

definition row_get :: "row \<Rightarrow> string \<Rightarrow> pyval" where
  "row_get r k = (case r k of None \<Rightarrow> PNone | Some v \<Rightarrow> v)"

text \<open>Python's truth value: \<^verbatim>\<open>None\<close>, the empty string and 0 are false.\<close>

fun truthy :: "pyval \<Rightarrow> bool" where
  "truthy PNone = False"
| "truthy (PStr s) = (s \<noteq> [])"
| "truthy (PInt i) = (i \<noteq> 0)"

text \<open>\<^verbatim>\<open>isinstance(v, int)\<close>.\<close>

fun is_int_instance :: "pyval \<Rightarrow> bool" where
  "is_int_instance (PInt i) = True"
| "is_int_instance v = False"

text \<open>\<^verbatim>\<open>str.isspace\<close> on the code points below 256, and \<^verbatim>\<open>str.strip()\<close>.\<close>

definition is_space :: "char \<Rightarrow> bool" where
  "is_space c = (c \<in> set [CHR 0x09, CHR 0x0A, CHR 0x0B, CHR 0x0C, CHR 0x0D,
     CHR 0x1C, CHR 0x1D, CHR 0x1E, CHR 0x1F, CHR 0x20, CHR 0x85, CHR 0xA0])"

definition strip :: "string \<Rightarrow> string" where
  "strip s = rev (dropWhile is_space (rev (dropWhile is_space s)))"

text \<open>\<^verbatim>\<open>str(v)\<close>: the decimal digits of an integer, most significant first.\<close>

function str_of_nat :: "nat \<Rightarrow> string" where
  "str_of_nat n =
     (if n < 10 then [''0123456789'' ! n]
      else str_of_nat (n div 10) @ [''0123456789'' ! (n mod 10)])"
  by pat_completeness auto
termination
  by (relation "measure (\<lambda>n. n)") auto

declare str_of_nat.simps [simp del]

fun py_str :: "pyval \<Rightarrow> string" where
  "py_str PNone = ''None''"
| "py_str (PStr s) = s"
| "py_str (PInt i) = (if i < 0 then CHR ''-'' # str_of_nat (nat (- i)) else str_of_nat (nat i))"

text \<open>\<^verbatim>\<open>v or ""\<close>.\<close>

definition or_empty :: "pyval \<Rightarrow> pyval" where
  "or_empty v = (if truthy v then v else PStr [])"

section \<open>Validation engine\<close>

text \<open>
  \<^verbatim>\<open>EMAIL_RE = re.compile(r"^[^@]+@[^@]+\.[^@]+$")\<close>, used through \<^verbatim>\<open>match\<close>. The three
  classes exclude only the at sign, so the string has one at sign, something before it, and
  after it a dot that is neither the first nor the last character. (A final newline, which
  \<^verbatim>\<open>$\<close> tolerates, is matched by the last class as well.)
\<close>

definition EMAIL_RE_match :: "string \<Rightarrow> bool" where
  "EMAIL_RE_match s =
     (let local_part = takeWhile (\<lambda>c. c \<noteq> CHR ''@'') s;
          rest = dropWhile (\<lambda>c. c \<noteq> CHR ''@'') s
      in local_part \<noteq> [] \<and> rest \<noteq> [] \<and>
         (let r = tl rest
          in CHR ''@'' \<notin> set r \<and> list_ex (\<lambda>i. r ! i = CHR ''.'') [1 ..< length r - 1]))"

definition validate_email :: "string \<Rightarrow> bool" where
  "validate_email email = (if email = [] then True else EMAIL_RE_match email)"

text \<open>
  \<^verbatim>\<open>datetime.strptime(s, "%Y-%m-%d")\<close>. The format compiles to the regular expression
  \<^verbatim>\<open>(\d\d\d\d)-(1[0-2]|0[1-9]|[1-9])-(3[01]|[12]\d|0[1-9]|[1-9]| [1-9])\<close>; the first
  alternative that matches is taken, the whole string must be consumed, and the three
  numbers must form a calendar date of the years 1 to 9999.
\<close>

definition is_digit :: "char \<Rightarrow> bool" where
  "is_digit c = (c \<in> set ''0123456789'')"

definition digit_val :: "char \<Rightarrow> nat" where
  "digit_val c =
     (let k = length (takeWhile (\<lambda>d. d \<noteq> c) ''0123456789'') in if k < 10 then k else 0)"

fun parse_year :: "string \<Rightarrow> (nat \<times> string) option" where
  "parse_year (a # b # c # d # r) =
     (if is_digit a \<and> is_digit b \<and> is_digit c \<and> is_digit d
      then Some (1000 * digit_val a + 100 * digit_val b + 10 * digit_val c + digit_val d, r)
      else None)"
| "parse_year s = None"

fun parse_month :: "string \<Rightarrow> (nat \<times> string) option" where
  "parse_month (a # b # r) =
     (if a = CHR ''1'' \<and> b \<in> set ''012'' then Some (10 + digit_val b, r)
      else if a = CHR ''0'' \<and> b \<in> set ''123456789'' then Some (digit_val b, r)
      else if a \<in> set ''123456789'' then Some (digit_val a, b # r)
      else None)"
| "parse_month [a] = (if a \<in> set ''123456789'' then Some (digit_val a, []) else None)"
| "parse_month [] = None"

fun parse_day :: "string \<Rightarrow> (nat \<times> string) option" where
  "parse_day (a # b # r) =
     (if a = CHR ''3'' \<and> b \<in> set ''01'' then Some (30 + digit_val b, r)
      else if a \<in> set ''12'' \<and> is_digit b then Some (10 * digit_val a + digit_val b, r)
      else if a = CHR ''0'' \<and> b \<in> set ''123456789'' then Some (digit_val b, r)
      else if a \<in> set ''123456789'' then Some (digit_val a, b # r)
      else if a = CHR '' '' \<and> b \<in> set ''123456789'' then Some (digit_val b, r)
      else None)"
| "parse_day [a] = (if a \<in> set ''123456789'' then Some (digit_val a, []) else None)"
| "parse_day [] = None"

definition expect_dash :: "string \<Rightarrow> string option" where
  "expect_dash s = (case s of [] \<Rightarrow> None | c # r \<Rightarrow> if c = CHR ''-'' then Some r else None)"

definition is_leap :: "nat \<Rightarrow> bool" where
  "is_leap y = (y mod 4 = 0 \<and> (y mod 100 \<noteq> 0 \<or> y mod 400 = 0))"

definition days_in_month :: "nat \<Rightarrow> nat \<Rightarrow> nat" where
  "days_in_month y m =
     (if m = 2 then (if is_leap y then 29 else 28)
      else if m \<in> set [4, 6, 9, 11] then 30 else 31)"

definition strptime_ymd :: "string \<Rightarrow> (nat \<times> nat \<times> nat) option" where
  "strptime_ymd s =
     (case parse_year s of None \<Rightarrow> None
      | Some (y, r1) \<Rightarrow>
     (case expect_dash r1 of None \<Rightarrow> None
      | Some r2 \<Rightarrow>
     (case parse_month r2 of None \<Rightarrow> None
      | Some (m, r3) \<Rightarrow>
     (case expect_dash r3 of None \<Rightarrow> None
      | Some r4 \<Rightarrow>
     (case parse_day r4 of None \<Rightarrow> None
      | Some (d, r5) \<Rightarrow>
        if r5 = [] \<and> 1 \<le> y \<and> d \<le> days_in_month y m then Some (y, m, d) else None)))))"

text \<open>
  \<^verbatim>\<open>validate_date_iso\<close>: a false value is accepted; an integer makes \<^verbatim>\<open>strptime\<close>
  raise \<^verbatim>\<open>TypeError\<close>, which the bare \<^verbatim>\<open>except\<close> turns into \<^verbatim>\<open>False\<close>.
\<close>

definition validate_date_iso :: "pyval \<Rightarrow> bool" where
  "validate_date_iso s =
     (if \<not> truthy s then True
      else (case s of PStr t \<Rightarrow> strptime_ymd t \<noteq> None | _ \<Rightarrow> False))"

text \<open>
  \<^verbatim>\<open>is_float\<close> and \<^verbatim>\<open>is_int\<close> ask whether the builtins \<^verbatim>\<open>float(v)\<close> and
  \<^verbatim>\<open>int(v)\<close> return. The builtins are parameters of the model: \<open>float_of v\<close> and
  \<open>int_of v\<close> are the value returned, \<open>None\<close> when the builtin raises.
\<close>

type_synonym float_builtin = "pyval \<Rightarrow> real option"
type_synonym int_builtin = "pyval \<Rightarrow> int option"

definition is_float :: "float_builtin \<Rightarrow> pyval \<Rightarrow> bool" where
  "is_float float_of v = (float_of v \<noteq> None)"

definition is_int :: "int_builtin \<Rightarrow> pyval \<Rightarrow> bool" where
  "is_int int_of v = (int_of v \<noteq> None)"

definition required_msg :: "string \<Rightarrow> string" where
  "required_msg field = field @ '' is REQUIRED - cannot be empty''"

text \<open>One iteration of the loop of \<^verbatim>\<open>validate_partner_row\<close>: the errors it appends.\<close>

definition partner_field_errors :: "row \<Rightarrow> string \<Rightarrow> string list" where
  "partner_field_errors r field =
     (let v = strip (py_str (or_empty (row_get r field)))
      in if v = [] then [required_msg field]
         else if field = ''email'' \<and> v \<noteq> [] \<and> \<not> validate_email v
              then [field @ '' format is invalid'']
         else [])"

definition partner_fields :: "string list" where
  "partner_fields = [''name'', ''tax_id'', ''email'', ''phone'', ''address'']"

definition validate_partner_row :: "row \<Rightarrow> string list" where
  "validate_partner_row r = concat (map (partner_field_errors r) partner_fields)"

definition product_fields :: "string list" where
  "product_fields = [''sku'', ''name'', ''description'', ''price'', ''stock'']"

definition product_field_errors :: "row \<Rightarrow> string \<Rightarrow> string list" where
  "product_field_errors r field =
     (let v = strip (py_str (or_empty (row_get r field)))
      in if v = [] then [required_msg field] else [])"

definition validate_product_row :: "float_builtin \<Rightarrow> int_builtin \<Rightarrow> row \<Rightarrow> string list" where
  "validate_product_row float_of int_of r =
     concat (map (product_field_errors r) product_fields)
     @ (if truthy (row_get r ''price'') \<and> \<not> is_float float_of (row_get r ''price'')
        then [''price must be a valid number''] else [])
     @ (if truthy (row_get r ''stock'') \<and> \<not> is_int int_of (row_get r ''stock'')
        then [''stock must be a valid integer''] else [])"

text \<open>The loop of \<^verbatim>\<open>validate_invoice_row\<close> and \<^verbatim>\<open>validate_invoice_item_row\<close>.\<close>

definition missing_field_errors :: "row \<Rightarrow> string \<Rightarrow> string list" where
  "missing_field_errors r field = (if \<not> truthy (row_get r field) then [required_msg field] else [])"

definition validate_invoice_row :: "row \<Rightarrow> string list" where
  "validate_invoice_row r =
     concat (map (missing_field_errors r) [''partner_id'', ''invoice_date'', ''due_date'', ''status''])
     @ (if truthy (row_get r ''partner_id'') \<and> \<not> is_int_instance (row_get r ''partner_id'')
        then [''partner_id must be a valid number''] else [])
     @ (if truthy (row_get r ''invoice_date'') \<and> \<not> validate_date_iso (row_get r ''invoice_date'')
        then [''invoice_date must be YYYY-MM-DD format''] else [])
     @ (if truthy (row_get r ''due_date'') \<and> \<not> validate_date_iso (row_get r ''due_date'')
        then [''due_date must be YYYY-MM-DD format''] else [])"

definition validate_invoice_item_row :: "row \<Rightarrow> string list" where
  "validate_invoice_item_row r =
     concat (map (missing_field_errors r) [''invoice_id'', ''product_id'', ''quantity''])
     @ (if truthy (row_get r ''invoice_id'') \<and> \<not> is_int_instance (row_get r ''invoice_id'')
        then [''invoice_id must be a valid number''] else [])
     @ (if truthy (row_get r ''product_id'') \<and> \<not> is_int_instance (row_get r ''product_id'')
        then [''product_id must be a valid number''] else [])
     @ (if truthy (row_get r ''quantity'') \<and> \<not> is_int_instance (row_get r ''quantity'')
        then [''quantity must be a positive integer''] else [])"

section \<open>The store\<close>

text \<open>
  The four tables of \<^verbatim>\<open>init_db\<close>, in storage order. A nullable column is an option.
  \<^verbatim>\<open>invoices.partner_id\<close> is declared \<^verbatim>\<open>NOT NULL\<close> and, in the same table,
  \<^verbatim>\<open>ON DELETE SET NULL\<close>: the field is an option so that the action can be written, and the
  statements below enforce the \<^verbatim>\<open>NOT NULL\<close>. \<^verbatim>\<open>status\<close> and \<^verbatim>\<open>total_amount\<close> are
  written by every statement of the program that inserts an invoice, with a string and a number.
  The four counters are the rows of \<^verbatim>\<open>sqlite_sequence\<close> that \<^verbatim>\<open>AUTOINCREMENT\<close> keeps.
\<close>

record partner =
  p_id :: int
  p_name :: string
  p_tax_id :: "string option"
  p_email :: "string option"
  p_phone :: "string option"
  p_address :: "string option"

record product =
  pr_id :: int
  pr_sku :: "string option"
  pr_name :: string
  pr_description :: "string option"
  pr_price :: real
  pr_stock :: "int option"

record invoice =
  inv_id :: int
  inv_partner_id :: "int option"
  inv_invoice_date :: string
  inv_due_date :: "string option"
  inv_status :: string
  inv_total_amount :: real

record invoice_item =
  it_id :: int
  it_invoice_id :: int
  it_product_id :: int
  it_quantity :: int
  it_unit_price :: real
  it_line_total :: real

record db =
  partners :: "partner list"
  products :: "product list"
  invoices :: "invoice list"
  invoice_items :: "invoice_item list"
  seq_partners :: int
  seq_products :: int
  seq_invoices :: int
  seq_invoice_items :: int

text \<open>
  What a statement can raise: a constraint violation (\<^verbatim>\<open>sqlite3.IntegrityError\<close>), an
  integer parameter outside the 64 bits of an \<^verbatim>\<open>INTEGER\<close> (\<^verbatim>\<open>OverflowError\<close>), a failure
  of the storage engine itself (\<^verbatim>\<open>sqlite3.OperationalError\<close>); \<^verbatim>\<open>KeyError\<close> for a
  dictionary subscript; and \<open>ValueError\<close> for a builtin conversion that raises.
\<close>

datatype constraint = NotNull string | Check string | Unique string | ForeignKey

datatype error =
    IntegrityError "constraint"
  | OverflowError
  | OperationalError
  | KeyError string
  | ValueError

definition int64 :: "int \<Rightarrow> bool" where
  "int64 i = (- (2 ^ 63) \<le> i \<and> i < 2 ^ 63)"

text \<open>\<^verbatim>\<open>AUTOINCREMENT\<close>: one more than the largest identity the table has or has had.\<close>

definition next_rowid :: "int \<Rightarrow> int list \<Rightarrow> int" where
  "next_rowid seq ids = max seq (foldr max ids 0) + 1"

subsection \<open>The statements of the program\<close>

text \<open>\<^verbatim>\<open>SELECT price FROM products WHERE id=?\<close>, first row.\<close>

definition sql_select_price :: "int \<Rightarrow> db \<Rightarrow> error + real option" where
  "sql_select_price pid d =
     (if \<not> int64 pid then Inl OverflowError
      else Inr (case filter (\<lambda>p. pr_id p = pid) (products d) of
                  [] \<Rightarrow> None
                | p # _ \<Rightarrow> Some (pr_price p)))"

text \<open>
  \<^verbatim>\<open>INSERT INTO invoice_items (invoice_id,product_id,quantity,unit_price,line_total)\<close>:
  \<^verbatim>\<open>CHECK(quantity>0)\<close>, then the two foreign keys.
\<close>

definition sql_insert_item :: "int \<Rightarrow> int \<Rightarrow> int \<Rightarrow> real \<Rightarrow> real \<Rightarrow> db \<Rightarrow> error + db \<times> int" where
  "sql_insert_item iid pid qty unit line_total d =
     (if \<not> (int64 iid \<and> int64 pid \<and> int64 qty) then Inl OverflowError
      else if \<not> 0 < qty then Inl (IntegrityError (Check ''quantity>0''))
      else if iid \<notin> set (map inv_id (invoices d)) \<or> pid \<notin> set (map pr_id (products d))
        then Inl (IntegrityError ForeignKey)
      else
        (let k = next_rowid (seq_invoice_items d) (map it_id (invoice_items d))
         in Inr (d\<lparr>invoice_items := invoice_items d @
                     [\<lparr>it_id = k, it_invoice_id = iid, it_product_id = pid, it_quantity = qty,
                       it_unit_price = unit, it_line_total = line_total\<rparr>],
                   seq_invoice_items := k\<rparr>, k)))"

text \<open>
  \<^verbatim>\<open>SELECT SUM(line_total) FROM invoice_items WHERE invoice_id=?\<close>: \<^verbatim>\<open>NULL\<close> over no row,
  and otherwise the sum of the line totals, which are finite numbers here and are added
  exactly. The engine also answers \<^verbatim>\<open>NULL\<close> when the sum of doubles is not a number
  (line totals of both infinities); no result below speaks of that case.
\<close>

definition items_of :: "int \<Rightarrow> db \<Rightarrow> invoice_item list" where
  "items_of iid d = filter (\<lambda>it. it_invoice_id it = iid) (invoice_items d)"

definition sql_sum_line_total :: "int \<Rightarrow> db \<Rightarrow> error + real option" where
  "sql_sum_line_total iid d =
     (if \<not> int64 iid then Inl OverflowError
      else Inr (if items_of iid d = [] then None
                else Some (sum_list (map it_line_total (items_of iid d)))))"

text \<open>\<^verbatim>\<open>x or 0.0\<close>.\<close>

definition or_zero :: "real option \<Rightarrow> real" where
  "or_zero x = (case x of None \<Rightarrow> 0 | Some t \<Rightarrow> if t = 0 then 0 else t)"

text \<open>\<^verbatim>\<open>UPDATE invoices SET total_amount=? WHERE id=?\<close>.\<close>

definition sql_update_total :: "real \<Rightarrow> int \<Rightarrow> db \<Rightarrow> error + db \<times> int" where
  "sql_update_total tot iid d =
     (if \<not> int64 iid then Inl OverflowError
      else Inr (d\<lparr>invoices :=
                    map (\<lambda>i. if inv_id i = iid then i\<lparr>inv_total_amount := tot\<rparr> else i) (invoices d)\<rparr>,
                0))"


text \<open>The queries of \<^verbatim>\<open>show_items_for_invoice\<close> and \<^verbatim>\<open>refresh_invoices\<close>.\<close>

definition sql_select_items :: "int \<Rightarrow> db \<Rightarrow> error + invoice_item list" where
  "sql_select_items iid d = (if \<not> int64 iid then Inl OverflowError else Inr (items_of iid d))"

definition sql_select_invoices :: "db \<Rightarrow> error + invoice list" where
  "sql_select_invoices d = Inr (invoices d)"

text \<open>
  \<^verbatim>\<open>DELETE FROM partners WHERE id=?\<close> with foreign keys on. Deleting a row fires
  \<^verbatim>\<open>ON DELETE SET NULL\<close> on the invoices that reference it; the engine then checks the
  \<^verbatim>\<open>NOT NULL\<close> of the column it has just cleared, and a violation aborts the statement.
\<close>

definition on_delete_set_null :: "int \<Rightarrow> invoice \<Rightarrow> invoice" where
  "on_delete_set_null pid i = (if inv_partner_id i = Some pid then i\<lparr>inv_partner_id := None\<rparr> else i)"

definition sql_delete_partner :: "int \<Rightarrow> db \<Rightarrow> error + db \<times> int" where
  "sql_delete_partner pid d =
     (if \<not> int64 pid then Inl OverflowError
      else if pid \<notin> set (map p_id (partners d)) then Inr (d, 0)
      else
        (let invs = map (on_delete_set_null pid) (invoices d)
         in if list_ex (\<lambda>i. inv_partner_id i = None) invs
            then Inl (IntegrityError (NotNull ''invoices.partner_id''))
            else Inr (d\<lparr>partners := filter (\<lambda>p. p_id p \<noteq> pid) (partners d), invoices := invs\<rparr>, 0)))"

section \<open>The persistence gateway\<close>

text \<open>
  A state of the program: the database file, the calls that the storage engine is going to
  fail (one flag for each call to come, in order; a call beyond the list succeeds, so the
  empty list is a store that never fails), and the rows that the item view of the invoice
  window shows.

  \<^verbatim>\<open>get_conn\<close> opens a connection for one call and commits in its \<^verbatim>\<open>finally\<close> clause,
  whether the body returned or raised. A statement that raises changes nothing. So each call
  is a transaction of its own: what it wrote is in the file when it returns.
\<close>

record state =
  store :: db
  faults :: "bool list"
  items_tv :: "invoice_item list"

definition get_conn :: "(db \<Rightarrow> error + db \<times> 'a) \<Rightarrow> state \<Rightarrow> state \<times> (error + 'a)" where
  "get_conn body s =
     (case faults s of
        True # fs \<Rightarrow> (s\<lparr>faults := fs\<rparr>, Inl OperationalError)
      | _ \<Rightarrow>
        (case body (store s) of
           Inl e \<Rightarrow> (s\<lparr>faults := tl (faults s)\<rparr>, Inl e)
         | Inr (d, x) \<Rightarrow> (s\<lparr>store := d, faults := tl (faults s)\<rparr>, Inr x)))"

definition execute :: "(db \<Rightarrow> error + db \<times> int) \<Rightarrow> state \<Rightarrow> state \<times> (error + int)" where
  "execute stmt s = get_conn stmt s"

definition query :: "(db \<Rightarrow> error + 'a) \<Rightarrow> db \<Rightarrow> error + db \<times> 'a" where
  "query q d = (case q d of Inl e \<Rightarrow> Inl e | Inr x \<Rightarrow> Inr (d, x))"

definition fetchone :: "(db \<Rightarrow> error + 'a) \<Rightarrow> state \<Rightarrow> state \<times> (error + 'a)" where
  "fetchone q s = get_conn (query q) s"

definition fetchall :: "(db \<Rightarrow> error + 'a) \<Rightarrow> state \<Rightarrow> state \<times> (error + 'a)" where
  "fetchall q s = get_conn (query q) s"

section \<open>The invoice window: items and totals\<close>

text \<open>
  What a callback shows or leaves behind: one constructor for each message box of the
  program, and \<open>Uncaught\<close> for an exception that no handler of the callback catches
  (the callback ends there).
\<close>

datatype row_error = RowInvalid nat "string list" | RowDb nat error

datatype event =
    InvalidProduct
  | InvalidQuantity
  | NoInvoice
  | ValidationFailed "string list"
  | ProductPriceMissing
  | DbError error
  | ItemAdded
  | SelectionWarning
  | Uncaught error
  | ImportColumnsError "string list" "string list"
  | ImportSummary nat nat
  | ImportWarnings "row_error list"

text \<open>\<^verbatim>\<open>s.split(sep)[0]\<close>: what stands before the first occurrence of the separator.\<close>

fun split_head :: "string \<Rightarrow> string \<Rightarrow> string" where
  "split_head sep [] = []"
| "split_head sep (c # cs) = (if prefix sep (c # cs) then [] else c # split_head sep cs)"

text \<open>
  \<^verbatim>\<open>show_items_for_invoice\<close> empties the view, then fills it from the store;
  \<^verbatim>\<open>refresh_invoices\<close> reads the invoices for the invoice list, which the model does not
  keep.
\<close>

definition show_items_for_invoice :: "int \<Rightarrow> state \<Rightarrow> state \<times> (error + unit)" where
  "show_items_for_invoice iid s =
     (case fetchall (sql_select_items iid) (s\<lparr>items_tv := []\<rparr>) of
        (s1, Inl e) \<Rightarrow> (s1, Inl e)
      | (s1, Inr rows) \<Rightarrow> (s1\<lparr>items_tv := rows\<rparr>, Inr ()))"

definition refresh_invoices :: "state \<Rightarrow> state \<times> (error + unit)" where
  "refresh_invoices s =
     (case fetchall sql_select_invoices s of
        (s1, Inl e) \<Rightarrow> (s1, Inl e)
      | (s1, Inr rows) \<Rightarrow> (s1, Inr ()))"

text \<open>
  The \<^verbatim>\<open>try\<close> block of \<^verbatim>\<open>add_item_to_invoice\<close>: insert the item, read the sum of the
  invoice's line totals, write it to the invoice, refresh the two views. Three calls of the
  gateway, each committed on its own; any exception ends the block in the handler, which
  shows it and undoes nothing.
\<close>

definition add_item_try ::
  "int \<Rightarrow> int \<Rightarrow> int \<Rightarrow> real \<Rightarrow> real \<Rightarrow> state \<Rightarrow> state \<times> event list" where
  "add_item_try iid pid qty unit line_total s =
     (case execute (sql_insert_item iid pid qty unit line_total) s of
           (s1, Inl e) \<Rightarrow> (s1, [DbError e])
         | (s1, Inr rowid) \<Rightarrow>
        (case fetchone (sql_sum_line_total iid) s1 of
           (s2, Inl e) \<Rightarrow> (s2, [DbError e])
         | (s2, Inr x) \<Rightarrow>
        (case execute (sql_update_total (or_zero x) iid) s2 of
           (s3, Inl e) \<Rightarrow> (s3, [DbError e])
         | (s3, Inr n) \<Rightarrow>
        (case show_items_for_invoice iid s3 of
           (s4, Inl e) \<Rightarrow> (s4, [DbError e])
         | (s4, Inr u) \<Rightarrow>
        (case refresh_invoices s4 of
           (s5, Inl e) \<Rightarrow> (s5, [DbError e])
         | (s5, Inr u) \<Rightarrow> (s5, [ItemAdded]))))))"

text \<open>
  \<^verbatim>\<open>line_total = qty * unit\<close>, the statement before the \<^verbatim>\<open>try\<close>. The product of an
  integer and a float converts the integer to a float first, which raises
  \<^verbatim>\<open>OverflowError\<close> for an integer that rounds beyond the largest double; no handler is
  in reach there.
\<close>

definition float_range :: "int \<Rightarrow> bool" where
  "float_range i = (\<bar>i\<bar> < 2 ^ 1024 - 2 ^ 970)"

definition add_item_line :: "int \<Rightarrow> int \<Rightarrow> int \<Rightarrow> real \<Rightarrow> state \<Rightarrow> state \<times> event list" where
  "add_item_line iid pid qty unit s =
     (if \<not> float_range qty then (s, [Uncaught OverflowError])
      else add_item_try iid pid qty unit (of_int qty * unit) s)"

text \<open>
  \<^verbatim>\<open>add_item_to_invoice\<close>. Its inputs are the text of the product box, of the quantity
  entry and of the unit price entry, and the identity of the invoice selected in the invoice
  list, if one is. The test \<^verbatim>\<open>not unit or not is_float(unit)\<close> and the \<^verbatim>\<open>float(unit)\<close>
  of the other branch are one application of the builtin here.
\<close>

definition add_item_to_invoice ::
  "int_builtin \<Rightarrow> float_builtin \<Rightarrow> string \<Rightarrow> string \<Rightarrow> int option \<Rightarrow> string \<Rightarrow> state
     \<Rightarrow> state \<times> event list" where
  "add_item_to_invoice int_of float_of product_cb qty_e sel unit_e s =
     (case int_of (PStr (split_head '' - '' (strip product_cb))) of
        None \<Rightarrow> (s, [InvalidProduct])
      | Some pid \<Rightarrow>
     (case int_of (PStr (strip qty_e)) of
        None \<Rightarrow> (s, [InvalidQuantity])
      | Some qty \<Rightarrow>
     (case sel of
        None \<Rightarrow> (s, [NoInvoice])
      | Some iid \<Rightarrow>
        (let err = validate_invoice_item_row
               [''invoice_id'' \<mapsto> PInt iid, ''product_id'' \<mapsto> PInt pid, ''quantity'' \<mapsto> PInt qty]
         in if err \<noteq> [] then (s, [ValidationFailed err])
            else
              (case (if strip unit_e = [] then None else float_of (PStr (strip unit_e))) of
                 None \<Rightarrow>
                   (case fetchone (sql_select_price pid) s of
                      (s1, Inl e) \<Rightarrow> (s1, [Uncaught e])
                    | (s1, Inr None) \<Rightarrow> (s1, [ProductPriceMissing])
                    | (s1, Inr (Some price)) \<Rightarrow> add_item_line iid pid qty price s1)
               | Some unit \<Rightarrow> add_item_line iid pid qty unit s)))))"





text \<open>
  Invariant I1: the stored total of every invoice is the sum of the line totals of its items
  (an empty sum is 0).
\<close>

definition total_ok :: "db \<Rightarrow> bool" where
  "total_ok d =
     (\<forall>i \<in> set (invoices d). inv_total_amount i = sum_list (map it_line_total (items_of (inv_id i) d)))"


section \<open>The partner window: deletion\<close>

definition sql_select_partners :: "db \<Rightarrow> error + partner list" where
  "sql_select_partners d = Inr (partners d)"

text \<open>
  \<^verbatim>\<open>delete_partner\<close>: the identity of the selected partner, the answer to the
  confirmation, one \<^verbatim>\<open>DELETE\<close>, then the refresh of the partner list. No handler.
\<close>

definition delete_partner :: "int option \<Rightarrow> bool \<Rightarrow> state \<Rightarrow> state \<times> event list" where
  "delete_partner sel confirm s =
     (case sel of
        None \<Rightarrow> (s, [SelectionWarning])
      | Some pid \<Rightarrow>
          if \<not> confirm then (s, [])
          else
            (case execute (sql_delete_partner pid) s of
               (s1, Inl e) \<Rightarrow> (s1, [Uncaught e])
             | (s1, Inr n) \<Rightarrow>
            (case fetchall sql_select_partners s1 of
               (s2, Inl e) \<Rightarrow> (s2, [Uncaught e])
             | (s2, Inr rows) \<Rightarrow> (s2, []))))"

section \<open>Bulk import\<close>

text \<open>
  What \<^verbatim>\<open>pd.read_csv(path, dtype=str).fillna("")\<close> hands to the import: the column names
  of the header and, for each line, a string for every column. \<^verbatim>\<open>row.to_dict()\<close> is the
  dictionary of a line over these columns.
\<close>

record dataframe =
  df_columns :: "string list"
  df_rows :: "(string \<Rightarrow> string) list"

definition to_dict :: "string list \<Rightarrow> (string \<Rightarrow> string) \<Rightarrow> row" where
  "to_dict cols cells = (\<lambda>k. if k \<in> set cols then Some (PStr (cells k)) else None)"

text \<open>\<^verbatim>\<open>if "id" in data: del data["id"]\<close>.\<close>

definition del_id :: "row \<Rightarrow> row" where
  "del_id data = data(''id'' := None)"

text \<open>\<^verbatim>\<open>data[k]\<close>, \<^verbatim>\<open>v or None\<close> and \<^verbatim>\<open>v or 0\<close>.\<close>

definition subscript :: "row \<Rightarrow> string \<Rightarrow> error + pyval" where
  "subscript data k = (case data k of None \<Rightarrow> Inl (KeyError k) | Some v \<Rightarrow> Inr v)"

definition or_none :: "pyval \<Rightarrow> pyval" where
  "or_none v = (if truthy v then v else PNone)"

definition or_int_zero :: "pyval \<Rightarrow> pyval" where
  "or_int_zero v = (if truthy v then v else PInt 0)"

text \<open>
  A Python value bound to a \<^verbatim>\<open>TEXT\<close> column: \<^verbatim>\<open>None\<close> is \<^verbatim>\<open>NULL\<close>, an integer is
  stored as its digits; an integer beyond 64 bits cannot be bound at all.
\<close>

fun text_of :: "pyval \<Rightarrow> string option" where
  "text_of PNone = None"
| "text_of (PStr t) = Some t"
| "text_of (PInt i) = Some (py_str (PInt i))"

fun bindable :: "pyval \<Rightarrow> bool" where
  "bindable (PInt i) = int64 i"
| "bindable v = True"

text \<open>
  \<^verbatim>\<open>INSERT INTO partners (name,tax_id,email,phone,address)\<close>: \<^verbatim>\<open>name\<close> is
  \<^verbatim>\<open>NOT NULL\<close>, nothing else is constrained.
\<close>

definition sql_insert_partner ::
  "pyval \<Rightarrow> pyval \<Rightarrow> pyval \<Rightarrow> pyval \<Rightarrow> pyval \<Rightarrow> db \<Rightarrow> error + db \<times> int" where
  "sql_insert_partner name tax_id email phone address d =
     (if \<not> (bindable name \<and> bindable tax_id \<and> bindable email \<and> bindable phone \<and> bindable address)
        then Inl OverflowError
      else
        (case text_of name of
           None \<Rightarrow> Inl (IntegrityError (NotNull ''partners.name''))
         | Some n \<Rightarrow>
             (let k = next_rowid (seq_partners d) (map p_id (partners d))
              in Inr (d\<lparr>partners := partners d @
                          [\<lparr>p_id = k, p_name = n, p_tax_id = text_of tax_id, p_email = text_of email,
                            p_phone = text_of phone, p_address = text_of address\<rparr>],
                        seq_partners := k\<rparr>, k))))"

text \<open>
  \<^verbatim>\<open>INSERT INTO products (sku,name,description,price,stock)\<close>: \<^verbatim>\<open>NOT NULL\<close>, then the two
  \<^verbatim>\<open>CHECK\<close>s, then \<^verbatim>\<open>UNIQUE\<close> on \<^verbatim>\<open>sku\<close>.
\<close>

definition sql_insert_product ::
  "pyval \<Rightarrow> pyval \<Rightarrow> pyval \<Rightarrow> real \<Rightarrow> int \<Rightarrow> db \<Rightarrow> error + db \<times> int" where
  "sql_insert_product sku name description price stock d =
     (if \<not> (bindable sku \<and> bindable name \<and> bindable description \<and> int64 stock)
        then Inl OverflowError
      else
        (case text_of name of
           None \<Rightarrow> Inl (IntegrityError (NotNull ''products.name''))
         | Some n \<Rightarrow>
             if \<not> 0 \<le> price then Inl (IntegrityError (Check ''price >= 0''))
             else if \<not> 0 \<le> stock then Inl (IntegrityError (Check ''stock >= 0''))
             else if text_of sku \<noteq> None \<and> text_of sku \<in> set (map pr_sku (products d))
               then Inl (IntegrityError (Unique ''products.sku''))
             else
               (let k = next_rowid (seq_products d) (map pr_id (products d))
                in Inr (d\<lparr>products := products d @
                            [\<lparr>pr_id = k, pr_sku = text_of sku, pr_name = n,
                              pr_description = text_of description, pr_price = price,
                              pr_stock = Some stock\<rparr>],
                          seq_products := k\<rparr>, k))))"

text \<open>
  The body of the \<^verbatim>\<open>try\<close> of one line of \<^verbatim>\<open>import_partners_csv\<close>: the five parameters
  are evaluated from left to right, then the statement runs.
\<close>

definition insert_partner_row :: "row \<Rightarrow> state \<Rightarrow> state \<times> (error + int)" where
  "insert_partner_row data s =
     (case subscript data ''name'' of Inl e \<Rightarrow> (s, Inl e) | Inr name \<Rightarrow>
     (case subscript data ''tax_id'' of Inl e \<Rightarrow> (s, Inl e) | Inr tax_id \<Rightarrow>
     (case subscript data ''email'' of Inl e \<Rightarrow> (s, Inl e) | Inr email \<Rightarrow>
     (case subscript data ''phone'' of Inl e \<Rightarrow> (s, Inl e) | Inr phone \<Rightarrow>
     (case subscript data ''address'' of Inl e \<Rightarrow> (s, Inl e) | Inr address \<Rightarrow>
        execute (sql_insert_partner name (or_none tax_id) (or_none email) (or_none phone)
                   (or_none address)) s)))))"

text \<open>
  The loop of \<^verbatim>\<open>import_partners_csv\<close> over the lines from position \<open>i\<close> on, with the
  error list and the counter it has built so far. An invalid line is recorded under its
  number \<open>i + 1\<close> with the validator's errors, a line whose insertion raises under the
  same number with the exception; the original formats both into one string.
\<close>

fun import_partners_loop ::
  "string list \<Rightarrow> nat \<Rightarrow> (string \<Rightarrow> string) list \<Rightarrow> state \<Rightarrow> row_error list \<Rightarrow> nat
     \<Rightarrow> state \<times> row_error list \<times> nat" where
  "import_partners_loop cols i [] s errors added = (s, errors, added)"
| "import_partners_loop cols i (cells # rest) s errors added =
     (let data = del_id (to_dict cols cells);
          err = validate_partner_row data
      in if err \<noteq> [] then
           import_partners_loop cols (i + 1) rest s (errors @ [RowInvalid (i + 1) err]) added
         else
           (case insert_partner_row data s of
              (s1, Inl e) \<Rightarrow>
                import_partners_loop cols (i + 1) rest s1 (errors @ [RowDb (i + 1) e]) added
            | (s1, Inr rowid) \<Rightarrow>
                import_partners_loop cols (i + 1) rest s1 errors (added + 1)))"

text \<open>
  \<^verbatim>\<open>import_partners_csv\<close>: the path chosen in the file dialog (empty when the dialog is
  cancelled) and the table read from it.
\<close>

definition import_report :: "row_error list \<Rightarrow> nat \<Rightarrow> event list" where
  "import_report errors added =
     ImportSummary added (length errors) # (if errors \<noteq> [] then [ImportWarnings (take 20 errors)] else [])"

definition import_partners_csv :: "string \<Rightarrow> dataframe \<Rightarrow> state \<Rightarrow> state \<times> event list" where
  "import_partners_csv path df s =
     (if path = [] then (s, [])
      else
        (let expected_basic = [''name'', ''tax_id'', ''email'', ''phone'', ''address''];
             expected_with_id = [''id''] @ expected_basic
         in if df_columns df \<notin> set [expected_basic, expected_with_id]
            then (s, [ImportColumnsError expected_basic expected_with_id])
            else
              (case import_partners_loop (df_columns df) 0 (df_rows df) s [] 0 of
                 (s1, errors, added) \<Rightarrow> (s1, import_report errors added))))"

text \<open>The same for products; \<^verbatim>\<open>float\<close> and \<^verbatim>\<open>int\<close> are applied inside the \<^verbatim>\<open>try\<close>.\<close>

definition insert_product_row ::
  "float_builtin \<Rightarrow> int_builtin \<Rightarrow> row \<Rightarrow> state \<Rightarrow> state \<times> (error + int)" where
  "insert_product_row float_of int_of data s =
     (case subscript data ''sku'' of Inl e \<Rightarrow> (s, Inl e) | Inr sku \<Rightarrow>
     (case subscript data ''name'' of Inl e \<Rightarrow> (s, Inl e) | Inr name \<Rightarrow>
     (case subscript data ''description'' of Inl e \<Rightarrow> (s, Inl e) | Inr description \<Rightarrow>
     (case subscript data ''price'' of Inl e \<Rightarrow> (s, Inl e) | Inr price_v \<Rightarrow>
     (case float_of price_v of None \<Rightarrow> (s, Inl ValueError) | Some price \<Rightarrow>
     (case subscript data ''stock'' of Inl e \<Rightarrow> (s, Inl e) | Inr stock_v \<Rightarrow>
     (case int_of (or_int_zero stock_v) of None \<Rightarrow> (s, Inl ValueError) | Some stock \<Rightarrow>
        execute (sql_insert_product sku name description price stock) s)))))))"

fun import_products_loop ::
  "float_builtin \<Rightarrow> int_builtin \<Rightarrow> string list \<Rightarrow> nat \<Rightarrow> (string \<Rightarrow> string) list \<Rightarrow> state
     \<Rightarrow> row_error list \<Rightarrow> nat \<Rightarrow> state \<times> row_error list \<times> nat" where
  "import_products_loop float_of int_of cols i [] s errors added = (s, errors, added)"
| "import_products_loop float_of int_of cols i (cells # rest) s errors added =
     (let data = del_id (to_dict cols cells);
          err = validate_product_row float_of int_of data
      in if err \<noteq> [] then
           import_products_loop float_of int_of cols (i + 1) rest s
             (errors @ [RowInvalid (i + 1) err]) added
         else
           (case insert_product_row float_of int_of data s of
              (s1, Inl e) \<Rightarrow>
                import_products_loop float_of int_of cols (i + 1) rest s1
                  (errors @ [RowDb (i + 1) e]) added
            | (s1, Inr rowid) \<Rightarrow>
                import_products_loop float_of int_of cols (i + 1) rest s1 errors (added + 1)))"

definition import_products_csv ::
  "float_builtin \<Rightarrow> int_builtin \<Rightarrow> string \<Rightarrow> dataframe \<Rightarrow> state \<Rightarrow> state \<times> event list" where
  "import_products_csv float_of int_of path df s =
     (if path = [] then (s, [])
      else
        (let expected_basic = [''sku'', ''name'', ''description'', ''price'', ''stock''];
             expected_with_id = [''id''] @ expected_basic
         in if df_columns df \<notin> set [expected_basic, expected_with_id]
            then (s, [ImportColumnsError expected_basic expected_with_id])
            else
              (case import_products_loop float_of int_of (df_columns df) 0 (df_rows df) s [] 0 of
                 (s1, errors, added) \<Rightarrow> (s1, import_report errors added))))"

section \<open>Decimal numerals\<close>

text \<open>
  The general results below hold for every \<open>float_of\<close> and \<open>int_of\<close>. Where a result is
  evaluated at a concrete input, the builtins are these: \<^verbatim>\<open>int\<close> and \<^verbatim>\<open>float\<close> on an
  integer and on a string that, once stripped, is an optional sign and a decimal numeral
  (digits, with at most one point for \<^verbatim>\<open>float\<close>). They are applied only to such numerals
  and to strings that no Python version reads as a number; exponents, digit-group
  underscores and the names of infinities and NaN are not covered.
\<close>

definition digits_val :: "string \<Rightarrow> nat" where
  "digits_val s = foldl (\<lambda>a c. 10 * a + digit_val c) 0 s"

definition decimal_nat :: "string \<Rightarrow> nat option" where
  "decimal_nat s = (if s \<noteq> [] \<and> list_all is_digit s then Some (digits_val s) else None)"

definition decimal_unsigned :: "string \<Rightarrow> real option" where
  "decimal_unsigned s =
     (let ip = takeWhile is_digit s; r = dropWhile is_digit s
      in if r = [] then map_option real (decimal_nat ip)
         else if hd r = CHR ''.'' \<and> list_all is_digit (tl r) \<and> (ip \<noteq> [] \<or> tl r \<noteq> [])
           then Some (real (digits_val ip) + real (digits_val (tl r)) / 10 ^ length (tl r))
         else None)"

fun decimal_int :: "pyval \<Rightarrow> int option" where
  "decimal_int PNone = None"
| "decimal_int (PInt i) = Some i"
| "decimal_int (PStr t) =
     (let u = strip t
      in if u \<noteq> [] \<and> hd u = CHR ''-'' then map_option (\<lambda>n. - int n) (decimal_nat (tl u))
         else if u \<noteq> [] \<and> hd u = CHR ''+'' then map_option int (decimal_nat (tl u))
         else map_option int (decimal_nat u))"

fun decimal_float :: "pyval \<Rightarrow> real option" where
  "decimal_float PNone = None"
| "decimal_float (PInt i) = Some (of_int i)"
| "decimal_float (PStr t) =
     (let u = strip t
      in if u \<noteq> [] \<and> hd u = CHR ''-'' then map_option uminus (decimal_unsigned (tl u))
         else if u \<noteq> [] \<and> hd u = CHR ''+'' then decimal_unsigned (tl u)
         else decimal_unsigned u)"

section \<open>Notions used in the proofs\<close>

text \<open>
  The store after the two calls that recompute the total of one invoice; the store after
  the deletion of an item; the invariant with that one invoice left out; and the invariant
  of a session on a store that never fails.
\<close>

definition retotal :: "int \<Rightarrow> db \<Rightarrow> db" where
  "retotal iid d =
     d\<lparr>invoices :=
         map (\<lambda>i. if inv_id i = iid
               then i\<lparr>inv_total_amount :=
                       or_zero (if items_of iid d = [] then None
                                else Some (sum_list (map it_line_total (items_of iid d))))\<rparr>
               else i) (invoices d)\<rparr>"

definition delete_rows :: "int \<Rightarrow> db \<Rightarrow> db" where
  "delete_rows item_id d =
     d\<lparr>invoice_items := filter (\<lambda>it. it_id it \<noteq> item_id) (invoice_items d)\<rparr>"



text \<open>The dictionary of an imported line, and the fields of a stored partner but its identity.\<close>

definition partner_data :: "string list \<Rightarrow> (string \<Rightarrow> string) \<Rightarrow> row" where
  "partner_data cols cells = del_id (to_dict cols cells)"



text \<open>
  What the import of partners owes for a table: the lines that the validator accepts, and
  for each line that it rejects, in order, the number of the line (from 1) with its errors.
\<close>

definition partner_row_valid :: "string list \<Rightarrow> (string \<Rightarrow> string) \<Rightarrow> bool" where
  "partner_row_valid cols cells = (validate_partner_row (partner_data cols cells) = [])"









section \<open>Example data\<close>

text \<open>A line of a table, given by its cells; a cell that is not listed is empty.\<close>

definition cells_of :: "(string \<times> string) list \<Rightarrow> string \<Rightarrow> string" where
  "cells_of kvs k = (case map_of kvs k of None \<Rightarrow> [] | Some v \<Rightarrow> v)"

definition empty_db :: db where
  "empty_db = \<lparr>partners = [], products = [], invoices = [], invoice_items = [],
     seq_partners = 0, seq_products = 0, seq_invoices = 0, seq_invoice_items = 0\<rparr>"

text \<open>One partner, one product at 9.99, one invoice of that partner without items.\<close>

definition shop_db :: db where
  "shop_db = \<lparr>partners = [\<lparr>p_id = 1, p_name = ''Acme'', p_tax_id = Some ''X'', p_email = Some ''a@b.c'',
                   p_phone = Some ''1'', p_address = Some ''A''\<rparr>],
     products = [\<lparr>pr_id = 1, pr_sku = Some ''W1'', pr_name = ''Widget'', pr_description = Some ''w'',
                   pr_price = 9.99, pr_stock = Some 3\<rparr>],
     invoices = [\<lparr>inv_id = 1, inv_partner_id = Some 1, inv_invoice_date = ''2024-01-15'',
                   inv_due_date = None, inv_status = ''Draft'', inv_total_amount = 0\<rparr>],
     invoice_items = [],
     seq_partners = 1, seq_products = 1, seq_invoices = 1, seq_invoice_items = 0\<rparr>"

definition shop :: state where
  "shop = \<lparr>store = shop_db, faults = [], items_tv = []\<rparr>"


text \<open>
  The example of property P7: five partner lines, the third with an empty name.
\<close>

definition p7_table :: dataframe where
  "p7_table =
     \<lparr>df_columns = [''name'', ''tax_id'', ''email'', ''phone'', ''address''],
      df_rows =
        [cells_of [(''name'', ''Ann''), (''tax_id'', ''T1''), (''email'', ''ann@x.org''),
                   (''phone'', ''11''), (''address'', ''A1'')],
         cells_of [(''name'', ''Bob''), (''tax_id'', ''T2''), (''email'', ''bob@x.org''),
                   (''phone'', ''22''), (''address'', ''A2'')],
         cells_of [(''name'', ''''), (''tax_id'', ''T3''), (''email'', ''cy@x.org''),
                   (''phone'', ''33''), (''address'', ''A3'')],
         cells_of [(''name'', ''Dee''), (''tax_id'', ''T4''), (''email'', ''dee@x.org''),
                   (''phone'', ''44''), (''address'', ''A4'')],
         cells_of [(''name'', ''Eve''), (''tax_id'', ''T5''), (''email'', ''eve@x.org''),
                   (''phone'', ''55''), (''address'', ''A5'')]]\<rparr>"

text \<open>
  Two product lines for the import, the second with an empty stock cell.
\<close>

definition bolt_cells :: "string \<Rightarrow> string" where
  "bolt_cells = cells_of [(''sku'', ''B1''), (''name'', ''Bolt''), (''description'', ''steel''),
                   (''price'', ''9.99''), (''stock'', ''5'')]"

definition nut_cells :: "string \<Rightarrow> string" where
  "nut_cells = cells_of [(''sku'', ''N1''), (''name'', ''Nut''), (''description'', ''brass''),
                   (''price'', ''0.50''), (''stock'', '''')]"

definition stock_table :: dataframe where
  "stock_table =
     \<lparr>df_columns = [''sku'', ''name'', ''description'', ''price'', ''stock''],
      df_rows = [bolt_cells, nut_cells]\<rparr>"






section \<open>Results on the validation engine\<close>

text \<open>
  Claim C9 (property P3). The partner validator applied to the field map with an empty
  name, tax id \<open>X\<close>, email \<open>bad\<close>, phone \<open>1\<close> and address \<open>A\<close> returns exactly two
  errors, in the order of the fields: the name is required, the format of the email is
  invalid.
\<close>

theorem partner_validator_two_errors:
  "validate_partner_row
     [''name'' \<mapsto> PStr '''', ''tax_id'' \<mapsto> PStr ''X'', ''email'' \<mapsto> PStr ''bad'',
      ''phone'' \<mapsto> PStr ''1'', ''address'' \<mapsto> PStr ''A'']
   = [''name is REQUIRED - cannot be empty'', ''email format is invalid'']"
  by (simp add: validate_partner_row_def partner_fields_def partner_field_errors_def row_get_def
      or_empty_def strip_def is_space_def required_msg_def validate_email_def EMAIL_RE_match_def)

text \<open>
  Claim C10. The validator of invoice items does not look at the sign of the quantity: with
  positive identities of the invoice and of the product and a negative quantity it returns
  no error. What stops such a line is the store: the insertion of the item raises, and when
  the three integers fit 64 bits it is the violation of \<^verbatim>\<open>CHECK(quantity>0)\<close> that it
  raises.
\<close>

theorem item_validator_accepts_negative_quantity:
  assumes "0 < iid" "0 < pid" "qty < 0"
  shows "validate_invoice_item_row
           [''invoice_id'' \<mapsto> PInt iid, ''product_id'' \<mapsto> PInt pid, ''quantity'' \<mapsto> PInt qty] = []
       \<and> isl (sql_insert_item iid pid qty u lt d)
       \<and> (int64 iid \<and> int64 pid \<and> int64 qty \<longrightarrow>
            sql_insert_item iid pid qty u lt d = Inl (IntegrityError (Check ''quantity>0'')))"
  using assms
  by (simp add: validate_invoice_item_row_def missing_field_errors_def row_get_def sql_insert_item_def)

theorem item_validator_accepts_negative_quantity_witness:
  "(0::int) < 1 \<and> (-2::int) < 0
   \<and> validate_invoice_item_row
       [''invoice_id'' \<mapsto> PInt 1, ''product_id'' \<mapsto> PInt 1, ''quantity'' \<mapsto> PInt (-2)] = []
   \<and> sql_insert_item 1 1 (-2) 10 (-20) shop_db = Inl (IntegrityError (Check ''quantity>0''))"
  using item_validator_accepts_negative_quantity[of 1 1 "-2" 10 "-20" shop_db]
  by (simp add: int64_def)

text \<open>
  Claim C6 says that an empty email and an empty due date produce no validation error. They
  do: both validators list the field among those whose emptiness is an error.
\<close>

theorem empty_optional_fields_counterexample:
  "validate_partner_row
     [''name'' \<mapsto> PStr ''Acme'', ''tax_id'' \<mapsto> PStr ''X'', ''email'' \<mapsto> PStr '''',
      ''phone'' \<mapsto> PStr ''1'', ''address'' \<mapsto> PStr ''A'']
   = [''email is REQUIRED - cannot be empty'']
   \<and> validate_invoice_row
     [''partner_id'' \<mapsto> PInt 1, ''invoice_date'' \<mapsto> PStr ''2024-01-15'', ''due_date'' \<mapsto> PStr '''',
      ''status'' \<mapsto> PStr ''Draft'']
   = [''due_date is REQUIRED - cannot be empty'']"
  by (simp add: validate_partner_row_def partner_fields_def partner_field_errors_def row_get_def
      or_empty_def strip_def is_space_def required_msg_def validate_email_def
      validate_invoice_row_def missing_field_errors_def validate_date_iso_def
      strptime_ymd_def expect_dash_def is_digit_def digit_val_def days_in_month_def is_leap_def)

text \<open>
  Claim C6, as the validators have it. No field is optional. A partner field map whose email
  is empty (or missing) and whose four other fields are not empty once stripped yields
  exactly one error, that the email is required, and no error about its format. An invoice
  field map whose due date is empty (or missing) and whose three other fields are not empty
  yields the error that the due date is required, followed only by what the partner identity
  and the invoice date deserve; it yields no error about the format of the due date.
\<close>

theorem empty_optional_fields_required:
  "(strip (py_str (or_empty (row_get r ''email''))) = [] \<and>
    strip (py_str (or_empty (row_get r ''name''))) \<noteq> [] \<and>
    strip (py_str (or_empty (row_get r ''tax_id''))) \<noteq> [] \<and>
    strip (py_str (or_empty (row_get r ''phone''))) \<noteq> [] \<and>
    strip (py_str (or_empty (row_get r ''address''))) \<noteq> []
    \<longrightarrow> validate_partner_row r = [''email is REQUIRED - cannot be empty''])
   \<and>
   (\<not> truthy (row_get q ''due_date'') \<and> truthy (row_get q ''partner_id'') \<and>
    truthy (row_get q ''invoice_date'') \<and> truthy (row_get q ''status'')
    \<longrightarrow> validate_invoice_row q =
          ''due_date is REQUIRED - cannot be empty''
          # (if \<not> is_int_instance (row_get q ''partner_id'')
             then [''partner_id must be a valid number''] else [])
          @ (if \<not> validate_date_iso (row_get q ''invoice_date'')
             then [''invoice_date must be YYYY-MM-DD format''] else []))"
  by (simp add: validate_partner_row_def partner_fields_def partner_field_errors_def
      required_msg_def validate_invoice_row_def missing_field_errors_def)

theorem empty_optional_fields_required_witness:
  "validate_partner_row
     [''name'' \<mapsto> PStr ''Acme'', ''tax_id'' \<mapsto> PStr ''X'', ''phone'' \<mapsto> PStr ''1'',
      ''address'' \<mapsto> PStr ''A'']
   = [''email is REQUIRED - cannot be empty'']
   \<and> validate_invoice_row
     [''partner_id'' \<mapsto> PInt 1, ''invoice_date'' \<mapsto> PStr ''2024-02-30'', ''status'' \<mapsto> PStr ''Draft'']
   = [''due_date is REQUIRED - cannot be empty'', ''invoice_date must be YYYY-MM-DD format'']"
  using empty_optional_fields_required[of
      "[''name'' \<mapsto> PStr ''Acme'', ''tax_id'' \<mapsto> PStr ''X'', ''phone'' \<mapsto> PStr ''1'',
        ''address'' \<mapsto> PStr ''A'']"
      "[''partner_id'' \<mapsto> PInt 1, ''invoice_date'' \<mapsto> PStr ''2024-02-30'', ''status'' \<mapsto> PStr ''Draft'']"]
  by (simp add: row_get_def or_empty_def strip_def is_space_def validate_date_iso_def
      strptime_ymd_def expect_dash_def is_digit_def digit_val_def days_in_month_def is_leap_def)

section \<open>Results on the bulk import\<close>

text \<open>
  Claim C7. When a file has been chosen and the list of its columns is neither the natural
  fields of the entity nor these fields after an identity column, the import of partners
  and the import of products return at once: the state, and with it the store, is the one
  they were given, whatever the lines are, and exactly one message is shown, the column
  error.
\<close>

theorem import_column_mismatch_rejected:
  assumes "path \<noteq> []"
  shows "(df_columns df \<noteq> partner_fields \<and> df_columns df \<noteq> ''id'' # partner_fields
          \<longrightarrow> import_partners_csv path df s
              = (s, [ImportColumnsError partner_fields (''id'' # partner_fields)]))
       \<and> (df_columns df \<noteq> product_fields \<and> df_columns df \<noteq> ''id'' # product_fields
          \<longrightarrow> import_products_csv float_of int_of path df s
              = (s, [ImportColumnsError product_fields (''id'' # product_fields)]))"
  using assms
  by (simp add: import_partners_csv_def import_products_csv_def partner_fields_def
      product_fields_def Let_def)

theorem import_column_mismatch_rejected_witness:
  "import_partners_csv ''partners.csv''
      \<lparr>df_columns = [''name'', ''email''],
       df_rows = [cells_of [(''name'', ''Acme''), (''email'', ''a@b.c'')]]\<rparr> shop
     = (shop, [ImportColumnsError partner_fields (''id'' # partner_fields)])
   \<and> import_products_csv decimal_float decimal_int ''products.csv''
      \<lparr>df_columns = [''name'', ''sku'', ''description'', ''price'', ''stock''],
       df_rows = [cells_of [(''name'', ''Bolt''), (''sku'', ''B1'')]]\<rparr> shop
     = (shop, [ImportColumnsError product_fields (''id'' # product_fields)])"
  using import_column_mismatch_rejected[of "''partners.csv''"
      "\<lparr>df_columns = [''name'', ''email''],
        df_rows = [cells_of [(''name'', ''Acme''), (''email'', ''a@b.c'')]]\<rparr>" shop]
    import_column_mismatch_rejected[of "''products.csv''"
      "\<lparr>df_columns = [''name'', ''sku'', ''description'', ''price'', ''stock''],
        df_rows = [cells_of [(''name'', ''Bolt''), (''sku'', ''B1'')]]\<rparr>"
      shop decimal_float decimal_int]
  by (simp add: partner_fields_def product_fields_def)

section \<open>Results on invoice totals\<close>

subsection \<open>The gateway on a store that never fails\<close>

lemma get_conn_reliable:
  "faults s = [] \<Longrightarrow> get_conn body s =
     (case body (store s) of Inl e \<Rightarrow> (s, Inl e) | Inr (d, x) \<Rightarrow> (s\<lparr>store := d\<rparr>, Inr x))"
  by (auto simp: get_conn_def split: sum.splits list.splits)

lemma execute_reliable:
  "faults s = [] \<Longrightarrow> execute stmt s =
     (case stmt (store s) of Inl e \<Rightarrow> (s, Inl e) | Inr (d, x) \<Rightarrow> (s\<lparr>store := d\<rparr>, Inr x))"
  by (simp add: execute_def get_conn_reliable)


lemma fetchall_reliable:
  "faults s = [] \<Longrightarrow> fetchall q s = (case q (store s) of Inl e \<Rightarrow> (s, Inl e) | Inr x \<Rightarrow> (s, Inr x))"
  by (simp add: fetchall_def get_conn_reliable query_def split: sum.splits)








lemma insert_item_qty64:
  "sql_insert_item iid pid qty u lt d = Inr (d', k) \<Longrightarrow> int64 qty"
  by (auto simp: sql_insert_item_def Let_def split: if_splits)

lemma int64_float_range: "int64 q \<Longrightarrow> float_range q"
proof -
  assume "int64 q"
  then have "\<bar>q\<bar> \<le> 2 ^ 63" by (auto simp: int64_def abs_le_iff)
  moreover have "(2::int) ^ 63 < 2 ^ 1024 - 2 ^ 970" by simp
  ultimately show ?thesis unfolding float_range_def by linarith
qed




lemma retotal_fields [simp]:
  "invoice_items (retotal iid d) = invoice_items d"
  "seq_invoice_items (retotal iid d) = seq_invoice_items d"
  "items_of j (retotal iid d) = items_of j d"
  by (simp_all add: retotal_def items_of_def)





lemma delete_rows_fields [simp]:
  "invoice_items (delete_rows k d) = filter (\<lambda>it. it_id it \<noteq> k) (invoice_items d)"
  "seq_invoice_items (delete_rows k d) = seq_invoice_items d"
  "invoices (delete_rows k d) = invoices d"
  by (simp_all add: delete_rows_def)





subsection \<open>The invariant I1\<close>


lemma strip_plain [simp]:
  "strip ''1 - Widget (price:9.99)'' = ''1 - Widget (price:9.99)''"
  "strip ''2'' = ''2''" "strip ''1'' = ''1''" "strip ''10'' = ''10''" "strip ''5'' = ''5''"
  by (simp_all add: strip_def is_space_def)

lemma decimal_lits:
  "decimal_int (PStr ''1'') = Some 1" "decimal_int (PStr ''2'') = Some 2"
  "decimal_float (PStr ''10'') = Some 10" "decimal_float (PStr ''5'') = Some 5"
  by (simp_all add: strip_def is_space_def decimal_nat_def is_digit_def digits_val_def
      digit_val_def decimal_unsigned_def)

lemma split_head_widget: "split_head '' - '' ''1 - Widget (price:9.99)'' = ''1''"
  by simp

lemma validate_item_ok:
  "iid \<noteq> 0 \<Longrightarrow> pid \<noteq> 0 \<Longrightarrow> qty \<noteq> 0 \<Longrightarrow>
   validate_invoice_item_row
     [''invoice_id'' \<mapsto> PInt iid, ''product_id'' \<mapsto> PInt pid, ''quantity'' \<mapsto> PInt qty] = []"
  by (simp add: validate_invoice_item_row_def missing_field_errors_def row_get_def)





section \<open>Results on failures inside an item addition\<close>

text \<open>
  Claim C2 says that a failure after the insertion of the item rolls the whole addition
  back. Here the store fails the third call of an addition, the \<^verbatim>\<open>UPDATE\<close> of the total:
  the item is in the store afterwards, the invoice still has the total 0, and the invariant I1
  is broken.
\<close>

theorem add_item_rollback_counterexample:
  "add_item_to_invoice decimal_int decimal_float ''1 - Widget (price:9.99)'' ''2'' (Some 1) ''10''
     (shop\<lparr>faults := [False, False, True]\<rparr>)
   = (\<lparr>store = shop_db\<lparr>invoice_items :=
                 [\<lparr>it_id = 1, it_invoice_id = 1, it_product_id = 1, it_quantity = 2,
                   it_unit_price = 10, it_line_total = 20\<rparr>],
               seq_invoice_items := 1\<rparr>,
       faults = [], items_tv = []\<rparr>,
      [DbError OperationalError])
   \<and> shop_db\<lparr>invoice_items :=
                 [\<lparr>it_id = 1, it_invoice_id = 1, it_product_id = 1, it_quantity = 2,
                   it_unit_price = 10, it_line_total = 20\<rparr>],
               seq_invoice_items := 1\<rparr> \<noteq> store shop
   \<and> \<not> total_ok (shop_db\<lparr>invoice_items :=
                 [\<lparr>it_id = 1, it_invoice_id = 1, it_product_id = 1, it_quantity = 2,
                   it_unit_price = 10, it_line_total = 20\<rparr>],
               seq_invoice_items := 1\<rparr>)"
  by (simp add: add_item_to_invoice_def add_item_line_def int64_float_range
      decimal_lits split_head_widget validate_item_ok
      add_item_try_def execute_def fetchone_def get_conn_def query_def shop_def shop_db_def
      sql_insert_item_def sql_sum_line_total_def int64_def next_rowid_def items_of_def
      total_ok_def del: decimal_int.simps decimal_float.simps)

lemma get_conn_ok:
  "faults s = False # fs \<Longrightarrow> get_conn body s =
     (case body (store s) of Inl e \<Rightarrow> (s\<lparr>faults := fs\<rparr>, Inl e)
      | Inr (d, x) \<Rightarrow> (s\<lparr>store := d, faults := fs\<rparr>, Inr x))"
  by (auto simp: get_conn_def split: sum.splits)

lemma get_conn_fault:
  "faults s = True # fs \<Longrightarrow> get_conn body s = (s\<lparr>faults := fs\<rparr>, Inl OperationalError)"
  by (simp add: get_conn_def)

lemma insert_item_result:
  assumes "sql_insert_item iid pid qty u lt d = Inr (d', k)"
  shows "invoices d' = invoices d"
    and "invoice_items d' = invoice_items d @
        [\<lparr>it_id = k, it_invoice_id = iid, it_product_id = pid, it_quantity = qty,
          it_unit_price = u, it_line_total = lt\<rparr>]"
    and "int64 iid"
  using assms by (auto simp: sql_insert_item_def Let_def split: if_splits)

lemma add_item_try_stale:
  assumes ins: "sql_insert_item iid pid qty u lt (store s) = Inr (d, k)"
    and f: "faults s = False # True # fs \<or> faults s = False # False # True # fs"
  shows "add_item_try iid pid qty u lt s = (s\<lparr>store := d, faults := fs\<rparr>, [DbError OperationalError])"
proof -
  have i64: "int64 iid" using ins by (rule insert_item_result)
  from f show ?thesis
  proof
    assume "faults s = False # True # fs"
    with ins show ?thesis
      by (simp add: add_item_try_def execute_def fetchone_def get_conn_ok get_conn_fault)
  next
    assume "faults s = False # False # True # fs"
    with ins i64 show ?thesis
      by (simp add: add_item_try_def execute_def fetchone_def get_conn_ok get_conn_fault
          query_def sql_sum_line_total_def)
  qed
qed

text \<open>
  Claim C2, as the program has it. Every call of the gateway is committed on its own and
  nothing is rolled back. Take an addition whose inputs parse and pass the validator, whose
  unit price is the number typed or, failing that, the price of the product read from the
  store, and whose \<^verbatim>\<open>INSERT\<close> the store accepts. If the store then fails the query of the
  sum, or the \<^verbatim>\<open>UPDATE\<close> of the total after a successful query, the addition ends with the
  inserted item in the store, the invoices exactly as they were before it (so the owning
  invoice keeps its former total), and one message, the database error.
\<close>

theorem add_item_commits_each_call:
  assumes parse: "int_of (PStr (split_head '' - '' (strip product_cb))) = Some pid"
      "int_of (PStr (strip qty_e)) = Some qty"
    and valid: "iid \<noteq> 0" "pid \<noteq> 0" "qty \<noteq> 0"
    and unit: "(strip unit_e \<noteq> [] \<and> float_of (PStr (strip unit_e)) = Some u \<and> pre = [])
       \<or> ((strip unit_e = [] \<or> float_of (PStr (strip unit_e)) = None)
           \<and> sql_select_price pid (store s) = Inr (Some u) \<and> pre = [False])"
    and ins: "sql_insert_item iid pid qty u (of_int qty * u) (store s) = Inr (d, k)"
    and f: "faults s = pre @ False # True # fs \<or> faults s = pre @ False # False # True # fs"
  shows "add_item_to_invoice int_of float_of product_cb qty_e (Some iid) unit_e s
           = (s\<lparr>store := d, faults := fs\<rparr>, [DbError OperationalError])
       \<and> invoices d = invoices (store s)
       \<and> invoice_items d = invoice_items (store s) @
            [\<lparr>it_id = k, it_invoice_id = iid, it_product_id = pid, it_quantity = qty,
              it_unit_price = u, it_line_total = of_int qty * u\<rparr>]"
proof -
  have fr: "float_range qty"
    using insert_item_qty64[OF ins] by (rule int64_float_range)
  from unit have "add_item_to_invoice int_of float_of product_cb qty_e (Some iid) unit_e s
           = (s\<lparr>store := d, faults := fs\<rparr>, [DbError OperationalError])"
  proof
    assume a: "strip unit_e \<noteq> [] \<and> float_of (PStr (strip unit_e)) = Some u \<and> pre = []"
    with f have "faults s = False # True # fs \<or> faults s = False # False # True # fs" by simp
    from add_item_try_stale[OF ins this] a parse valid fr show ?thesis
      by (simp add: add_item_to_invoice_def add_item_line_def validate_item_ok)
  next
    assume a: "(strip unit_e = [] \<or> float_of (PStr (strip unit_e)) = None)
           \<and> sql_select_price pid (store s) = Inr (Some u) \<and> pre = [False]"
    let ?s1 = "s\<lparr>faults := tl (faults s)\<rparr>"
    from a f have f0: "faults s = False # tl (faults s)" by auto
    from a f have f1: "faults ?s1 = False # True # fs \<or> faults ?s1 = False # False # True # fs"
      by auto
    have ins1: "sql_insert_item iid pid qty u (of_int qty * u) (store ?s1) = Inr (d, k)"
      using ins by simp
    have price: "fetchone (sql_select_price pid) s = (?s1, Inr (Some u))"
      using a by (simp add: fetchone_def get_conn_ok[OF f0] query_def)
    have none: "(if strip unit_e = [] then None else float_of (PStr (strip unit_e))) = None"
      using a by auto
    from add_item_try_stale[OF ins1 f1] parse valid fr show ?thesis
      by (simp add: add_item_to_invoice_def add_item_line_def validate_item_ok price none)
  qed
  with insert_item_result(1,2)[OF ins] show ?thesis by simp
qed

theorem add_item_commits_each_call_witness:
  "add_item_to_invoice decimal_int decimal_float ''1 - Widget (price:9.99)'' ''2'' (Some 1) ''abc''
     (shop\<lparr>faults := [False, False, True]\<rparr>)
   = (\<lparr>store = shop_db\<lparr>invoice_items :=
                 [\<lparr>it_id = 1, it_invoice_id = 1, it_product_id = 1, it_quantity = 2,
                   it_unit_price = 9.99, it_line_total = 19.98\<rparr>],
               seq_invoice_items := 1\<rparr>,
       faults = [], items_tv = []\<rparr>,
      [DbError OperationalError])
   \<and> invoices (shop_db\<lparr>invoice_items :=
                 [\<lparr>it_id = 1, it_invoice_id = 1, it_product_id = 1, it_quantity = 2,
                   it_unit_price = 9.99, it_line_total = 19.98\<rparr>],
               seq_invoice_items := 1\<rparr>) = invoices shop_db"
proof -
  have abc: "strip ''abc'' = ''abc''" "decimal_float (PStr ''abc'') = None"
    by (simp_all add: strip_def is_space_def decimal_unsigned_def is_digit_def decimal_nat_def)
  have ins: "sql_insert_item 1 1 2 9.99 (of_int 2 * 9.99) (store (shop\<lparr>faults := [False, False, True]\<rparr>))
      = Inr (shop_db\<lparr>invoice_items :=
                 [\<lparr>it_id = 1, it_invoice_id = 1, it_product_id = 1, it_quantity = 2,
                   it_unit_price = 9.99, it_line_total = 19.98\<rparr>],
               seq_invoice_items := 1\<rparr>, 1)"
    by (simp add: sql_insert_item_def shop_def shop_db_def int64_def next_rowid_def)
  show ?thesis
    using add_item_commits_each_call[of decimal_int "''1 - Widget (price:9.99)''" 1 "''2''" 2 1
        "''abc''" decimal_float "9.99" "[False]" "shop\<lparr>faults := [False, False, True]\<rparr>" _ 1 "[]", OF _ _ _ _ _ _ ins]
    by (simp add: decimal_lits split_head_widget abc shop_def shop_db_def sql_select_price_def int64_def
        del: decimal_int.simps decimal_float.simps)
qed

section \<open>Results on the line total of an added item\<close>














section \<open>Results on the deletion of a partner\<close>

text \<open>
  Claim C3 (property P6) expects that deleting a partner whom an invoice references succeeds
  and leaves the invoice in the store with its reference cleared. The schema asks for that
  with \<^verbatim>\<open>ON DELETE SET NULL\<close>, and forbids it with \<^verbatim>\<open>NOT NULL\<close> on the same column. What
  the program does, on a store that does not fail otherwise: for every partner of the store
  that some invoice references, the confirmed deletion raises the violation of
  \<^verbatim>\<open>NOT NULL\<close> on \<^verbatim>\<open>invoices.partner_id\<close>, which nothing catches, and leaves the state as
  it was: the partner is still there and the invoice still points to it.
\<close>

theorem delete_referenced_partner_fails:
  assumes "p \<in> set (partners (store s))" "p_id p = pid"
    and "i \<in> set (invoices (store s))" "inv_partner_id i = Some pid"
    and "int64 pid" "faults s = []"
  shows "delete_partner (Some pid) True s
         = (s, [Uncaught (IntegrityError (NotNull ''invoices.partner_id''))])"
proof -
  have "on_delete_set_null pid i \<in> set (map (on_delete_set_null pid) (invoices (store s)))"
    using assms(3) by simp
  moreover have "inv_partner_id (on_delete_set_null pid i) = None"
    using assms(4) by (simp add: on_delete_set_null_def)
  ultimately have "list_ex (\<lambda>i. inv_partner_id i = None) (map (on_delete_set_null pid) (invoices (store s)))"
    unfolding list_ex_iff by blast
  moreover have "pid \<in> set (map p_id (partners (store s)))"
    using assms(1,2) by auto
  ultimately have "sql_delete_partner pid (store s) = Inl (IntegrityError (NotNull ''invoices.partner_id''))"
    using assms(5) by (simp add: sql_delete_partner_def Let_def)
  then show ?thesis
    using assms(6) by (simp add: delete_partner_def execute_reliable)
qed

theorem delete_referenced_partner_fails_witness:
  "delete_partner (Some 1) True shop
     = (shop, [Uncaught (IntegrityError (NotNull ''invoices.partner_id''))])
   \<and> map inv_partner_id (invoices (store shop)) = [Some 1]
   \<and> map p_id (partners (store shop)) = [1]"
  using delete_referenced_partner_fails[of "hd (partners shop_db)" shop 1 "hd (invoices shop_db)"]
  by (simp add: shop_def shop_db_def int64_def)

section \<open>The import of partners on a store that never fails\<close>

lemma strip_Nil [simp]: "strip [] = []"
  by (simp add: strip_def)

lemma strip_nonempty: "strip t \<noteq> [] \<Longrightarrow> t \<noteq> []"
  by auto





lemma p7_rows:
  "map (partner_row_valid (df_columns p7_table)) (df_rows p7_table) = [True, True, False, True, True]"
  "validate_partner_row (partner_data (df_columns p7_table) (df_rows p7_table ! 2))
     = [''name is REQUIRED - cannot be empty'']"
  by (simp_all add: p7_table_def partner_row_valid_def validate_partner_row_def partner_fields_def
      partner_field_errors_def partner_data_def del_id_def to_dict_def cells_of_def row_get_def
      or_empty_def strip_def is_space_def required_msg_def validate_email_def EMAIL_RE_match_def)




section \<open>Results on the import of products\<close>

lemma stock_table_parse:
  "decimal_float (PStr ''9.99'') = Some 9.99" "decimal_float (PStr ''0.50'') = Some 0.5"
  "decimal_int (PStr ''5'') = Some 5"
  by (simp_all add: strip_def is_space_def decimal_unsigned_def decimal_nat_def is_digit_def
      digits_val_def digit_val_def)

lemma stock_table_validation:
  "validate_product_row decimal_float decimal_int
     (del_id (to_dict (df_columns stock_table) bolt_cells)) = []"
  "validate_product_row decimal_float decimal_int
     (del_id (to_dict (df_columns stock_table) nut_cells))
   = [''stock is REQUIRED - cannot be empty'']"
  by (simp_all add: stock_table_def bolt_cells_def nut_cells_def validate_product_row_def product_fields_def
      product_field_errors_def del_id_def to_dict_def cells_of_def row_get_def or_empty_def
      strip_def is_space_def required_msg_def is_float_def is_int_def stock_table_parse
      del: decimal_int.simps decimal_float.simps)

text \<open>
  Claim C5 says that a product line with an empty stock cell is accepted and stored with
  stock 0. Of the two lines of the example the first is stored; the second, whose stock cell
  is empty and whose other cells are valid, is recorded as an error of line 2 and nothing is
  stored for it. The \<^verbatim>\<open>or 0\<close> of the insertion is never reached with an empty cell.
\<close>

theorem import_product_empty_stock_counterexample:
  "import_products_csv decimal_float decimal_int ''products.csv'' stock_table shop
   = (shop\<lparr>store := shop_db\<lparr>products := products shop_db @
          [\<lparr>pr_id = 2, pr_sku = Some ''B1'', pr_name = ''Bolt'', pr_description = Some ''steel'',
            pr_price = 9.99, pr_stock = Some 5\<rparr>], seq_products := 2\<rparr>\<rparr>,
      [ImportSummary 1 1, ImportWarnings [RowInvalid 2 [''stock is REQUIRED - cannot be empty'']]])"
proof -
  have cols: "df_columns stock_table = [''sku'', ''name'', ''description'', ''price'', ''stock'']"
    by (simp add: stock_table_def)
  have rows: "df_rows stock_table = [bolt_cells, nut_cells]"
    by (simp add: stock_table_def)
  have ins: "insert_product_row decimal_float decimal_int
      (del_id (to_dict (df_columns stock_table) bolt_cells)) shop
    = (shop\<lparr>store := shop_db\<lparr>products := products shop_db @
          [\<lparr>pr_id = 2, pr_sku = Some ''B1'', pr_name = ''Bolt'', pr_description = Some ''steel'',
            pr_price = 9.99, pr_stock = Some 5\<rparr>], seq_products := 2\<rparr>\<rparr>, Inr 2)"
    by (simp add: insert_product_row_def subscript_def stock_table_def bolt_cells_def del_id_def to_dict_def
        cells_of_def stock_table_parse or_int_zero_def execute_reliable shop_def shop_db_def
        sql_insert_product_def int64_def next_rowid_def
        del: decimal_int.simps decimal_float.simps)
  have loop: "import_products_loop decimal_float decimal_int (df_columns stock_table) 0
      (df_rows stock_table) shop [] 0
    = (shop\<lparr>store := shop_db\<lparr>products := products shop_db @
          [\<lparr>pr_id = 2, pr_sku = Some ''B1'', pr_name = ''Bolt'', pr_description = Some ''steel'',
            pr_price = 9.99, pr_stock = Some 5\<rparr>], seq_products := 2\<rparr>\<rparr>,
       [RowInvalid 2 [''stock is REQUIRED - cannot be empty'']], 1)"
    by (subst rows) (simp add: stock_table_validation ins Let_def)
  show ?thesis
    by (simp add: import_products_csv_def Let_def cols[symmetric] loop import_report_def)
qed

lemma empty_stock_required:
  assumes "''stock'' \<in> set cols \<longrightarrow> strip (cells ''stock'') = []"
  shows "''stock is REQUIRED - cannot be empty''
           \<in> set (validate_product_row float_of int_of (del_id (to_dict cols cells)))"
proof -
  have "strip (py_str (or_empty (row_get (del_id (to_dict cols cells)) ''stock''))) = []"
    using assms by (auto simp: row_get_def del_id_def to_dict_def or_empty_def)
  then have "product_field_errors (del_id (to_dict cols cells)) ''stock''
      = [''stock is REQUIRED - cannot be empty'']"
    by (simp add: product_field_errors_def required_msg_def)
  then show ?thesis
    by (simp add: validate_product_row_def product_fields_def)
qed

text \<open>
  Claim C5, as the import has it. A product line whose stock cell is empty once stripped (or
  whose table has no stock column) is rejected by the validator: its turn in the loop leaves
  the state, and with it the store, as it was, adds nothing to the counter, records the line
  under its number with the validator's errors, among them that the stock is required, and
  goes on with the next line.
\<close>

theorem import_product_empty_stock_rejected:
  assumes "''stock'' \<in> set cols \<longrightarrow> strip (cells ''stock'') = []"
  shows "import_products_loop float_of int_of cols i (cells # rest) s errors added
         = import_products_loop float_of int_of cols (i + 1) rest s
             (errors @ [RowInvalid (i + 1)
                (validate_product_row float_of int_of (del_id (to_dict cols cells)))]) added
       \<and> ''stock is REQUIRED - cannot be empty''
           \<in> set (validate_product_row float_of int_of (del_id (to_dict cols cells)))"
proof -
  from assms empty_stock_required[of cols cells float_of int_of]
  have m: "''stock is REQUIRED - cannot be empty''
           \<in> set (validate_product_row float_of int_of (del_id (to_dict cols cells)))"
    by blast
  then have "validate_product_row float_of int_of (del_id (to_dict cols cells)) \<noteq> []"
    by auto
  then have "import_products_loop float_of int_of cols i (cells # rest) s errors added
         = import_products_loop float_of int_of cols (i + 1) rest s
             (errors @ [RowInvalid (i + 1)
                (validate_product_row float_of int_of (del_id (to_dict cols cells)))]) added"
    by (simp add: Let_def)
  with m show ?thesis by simp
qed

theorem import_product_empty_stock_rejected_witness:
  "import_products_loop decimal_float decimal_int (df_columns stock_table) 1
      [nut_cells] shop [] 1
   = (shop, [RowInvalid 2 [''stock is REQUIRED - cannot be empty'']], 1)"
proof -
  have h: "''stock'' \<in> set (df_columns stock_table)
      \<longrightarrow> strip (nut_cells ''stock'') = []"
    by (simp add: stock_table_def nut_cells_def cells_of_def)
  from h import_product_empty_stock_rejected[of "df_columns stock_table" nut_cells
      decimal_float decimal_int 1 "[]" shop "[]" 1]
  show ?thesis
    by (simp add: stock_table_validation del: import_products_loop.simps(2))
qed

section \<open>Results on the partial success of the imports\<close>






















section \<open>Checks of the model\<close>

text \<open>
  The matcher of the email pattern against the pattern read as a regular expression: a
  string matches exactly when it is three non-empty parts without an at sign, joined by an
  at sign and a dot.
\<close>

lemma EMAIL_RE_match_iff:
  "EMAIL_RE_match s \<longleftrightarrow>
     (\<exists>a b c. s = a @ ''@'' @ b @ ''.'' @ c \<and> a \<noteq> [] \<and> b \<noteq> [] \<and> c \<noteq> [] \<and>
        CHR ''@'' \<notin> set a \<and> CHR ''@'' \<notin> set b \<and> CHR ''@'' \<notin> set c)"
proof
  assume m: "EMAIL_RE_match s"
  let ?a = "takeWhile (\<lambda>c. c \<noteq> CHR ''@'') s"
  let ?rest = "dropWhile (\<lambda>c. c \<noteq> CHR ''@'') s"
  from m have a: "?a \<noteq> []" and r: "?rest \<noteq> []" and na: "CHR ''@'' \<notin> set (tl ?rest)"
    and ex: "list_ex (\<lambda>i. tl ?rest ! i = CHR ''.'') [1 ..< length (tl ?rest) - 1]"
    by (simp_all add: EMAIL_RE_match_def Let_def)
  from r have hd: "hd ?rest = CHR ''@''" using hd_dropWhile[of "\<lambda>c. c \<noteq> CHR ''@''" s] by simp
  with r have rest: "?rest = CHR ''@'' # tl ?rest" by (cases ?rest) auto
  define r where "r = tl ?rest"
  from ex obtain i where i: "1 \<le> i" "i < length r - 1" "r ! i = CHR ''.''"
    unfolding r_def[symmetric] by (auto simp: list_ex_iff)
  from i have il: "i < length r" by linarith
  have split: "r = take i r @ [CHR ''.''] @ drop (Suc i) r"
    using i(3) il id_take_nth_drop[of i r] by simp
  have "s = ?a @ ?rest" by simp
  also have "\<dots> = ?a @ CHR ''@'' # r" using rest by (simp add: r_def)
  also have "\<dots> = ?a @ ''@'' @ take i r @ ''.'' @ drop (Suc i) r"
    using split by simp
  finally have s: "s = ?a @ ''@'' @ take i r @ ''.'' @ drop (Suc i) r" .
  have "take i r \<noteq> []" using i(1) il by (cases r) auto
  moreover have "drop (Suc i) r \<noteq> []" using i(2) by simp
  moreover have "CHR ''@'' \<notin> set ?a" by (auto dest: set_takeWhileD)
  moreover have "CHR ''@'' \<notin> set (take i r)" "CHR ''@'' \<notin> set (drop (Suc i) r)"
    using na unfolding r_def[symmetric] by (auto dest: in_set_takeD in_set_dropD)
  ultimately show "\<exists>a b c. s = a @ ''@'' @ b @ ''.'' @ c \<and> a \<noteq> [] \<and> b \<noteq> [] \<and> c \<noteq> [] \<and>
        CHR ''@'' \<notin> set a \<and> CHR ''@'' \<notin> set b \<and> CHR ''@'' \<notin> set c"
    using a s by blast
next
  assume "\<exists>a b c. s = a @ ''@'' @ b @ ''.'' @ c \<and> a \<noteq> [] \<and> b \<noteq> [] \<and> c \<noteq> [] \<and>
        CHR ''@'' \<notin> set a \<and> CHR ''@'' \<notin> set b \<and> CHR ''@'' \<notin> set c"
  then obtain a b c where s: "s = a @ ''@'' @ b @ ''.'' @ c" and ne: "a \<noteq> []" "b \<noteq> []" "c \<noteq> []"
    and na: "CHR ''@'' \<notin> set a" "CHR ''@'' \<notin> set b" "CHR ''@'' \<notin> set c"
    by blast
  have tw: "takeWhile (\<lambda>c. c \<noteq> CHR ''@'') s = a"
    using na(1) unfolding s by (subst takeWhile_append2) auto
  have dw: "dropWhile (\<lambda>c. c \<noteq> CHR ''@'') s = ''@'' @ b @ ''.'' @ c"
    using na(1) unfolding s by (subst dropWhile_append2) auto
  have len: "length b < length (b @ ''.'' @ c) - 1" using ne(3) by (cases c) auto
  have nth: "(b @ ''.'' @ c) ! length b = CHR ''.''" by (simp add: nth_append)
  have "list_ex (\<lambda>i. (b @ ''.'' @ c) ! i = CHR ''.'') [1 ..< length (b @ ''.'' @ c) - 1]"
    unfolding list_ex_iff using len nth ne(2)
    by (intro bexI[of _ "length b"]) (auto simp: Suc_le_eq)
  then show "EMAIL_RE_match s"
    using ne na by (simp add: EMAIL_RE_match_def Let_def tw dw)
qed

text \<open>
  The deletion of a partner does succeed when no invoice references the partner: the
  failure above comes from the reference, not from the statement.
\<close>

lemma delete_unreferenced_partner:
  assumes "\<forall>i \<in> set (invoices (store s)). inv_partner_id i \<noteq> None \<and> inv_partner_id i \<noteq> Some pid"
    and "int64 pid" "faults s = []"
  shows "delete_partner (Some pid) True s
         = (s\<lparr>store := (store s)\<lparr>partners := filter (\<lambda>p. p_id p \<noteq> pid) (partners (store s))\<rparr>\<rparr>, [])"
proof -
  have m: "map (on_delete_set_null pid) (invoices (store s)) = invoices (store s)"
    using assms(1) by (simp add: on_delete_set_null_def map_idI)
  have n: "\<not> list_ex (\<lambda>i. inv_partner_id i = None) (invoices (store s))"
    using assms(1) by (auto simp: list_ex_iff)
  have f: "pid \<notin> set (map p_id (partners (store s))) \<Longrightarrow>
      filter (\<lambda>p. p_id p \<noteq> pid) (partners (store s)) = partners (store s)"
    by (auto simp: filter_id_conv)
  show ?thesis
    using assms(2,3) m n f
    by (auto simp: delete_partner_def execute_reliable fetchall_reliable sql_delete_partner_def
        sql_select_partners_def Let_def)
qed

end
